theory Spec2Isabelle
  imports Main "HOL-Library.Word" "HOL-Library.Signed_Division"
begin

section \<open>Placeholder scanning and parameter extraction\<close>

text \<open>
  A Go string is modelled by the sequence its \<^verbatim>\<open>range\<close> loop iterates; the two
  delimiters are ASCII, so a \<open>char\<close> stands for one rune. A \<^verbatim>\<open>[]byte\<close> made from a
  string is the same sequence.
\<close>

type_synonym bytes = string

text \<open>
  The loop of \<^verbatim>\<open>paramExtractAlg\<close>: \<open>res\<close> and \<open>buildStr\<close> are the two local
  variables, the list argument is what is left of the input. The three branches are the
  three cases of the \<^verbatim>\<open>switch\<close>, in the source's order.
\<close>

fun paramExtractAlg_loop :: "string \<Rightarrow> string list \<Rightarrow> string \<Rightarrow> string list" where
  "paramExtractAlg_loop [] res buildStr = res"
| "paramExtractAlg_loop (c # cs) res buildStr =
     (if c = CHR ''{'' then paramExtractAlg_loop cs res []
      else if c = CHR ''}'' then paramExtractAlg_loop cs (res @ [buildStr]) buildStr
      else paramExtractAlg_loop cs res (buildStr @ [c]))"

definition paramExtractAlg :: "string \<Rightarrow> string list" where
  "paramExtractAlg input = paramExtractAlg_loop input [] []"

text \<open>\<^verbatim>\<open>errors.New\<close> and the \<^verbatim>\<open>Error()\<close> method of the value it returns.\<close>

datatype error = errors_New string

fun Error :: "error \<Rightarrow> string" where
  "Error (errors_New msg) = msg"

type_synonym Parameters = "string \<rightharpoonup> bytes"

text \<open>
  \<^verbatim>\<open>extractParams\<close>: the counting loop \<^verbatim>\<open>for i := 0; i < len(p); i++\<close> stores
  \<^verbatim>\<open>result[lp[i]] = []byte(p[i])\<close>; it only runs when both lengths agree, so both
  indexings are in range.
\<close>

definition extractParams :: "string \<Rightarrow> string \<Rightarrow> error + Parameters" where
  "extractParams path locPath =
     (let p = paramExtractAlg path;
          lp = paramExtractAlg locPath
      in if length p \<noteq> length lp then Inl (errors_New ''invalid URL params'')
         else Inr (fold (\<lambda>i result. result(lp ! i \<mapsto> p ! i)) [0..<length p] Map.empty))"

section \<open>Collaborators: response writer, request, body reader\<close>

text \<open>
  \<^verbatim>\<open>http.ResponseWriter\<close> as the dispatcher uses it: \<^verbatim>\<open>WriteHeader\<close> fixes the status
  once (a second call is ignored by the standard library), \<^verbatim>\<open>Write\<close> appends to the
  body and sends status 200 first when no status was sent yet.
\<close>

record ResponseWriter =
  rw_status :: "nat option"
  rw_body :: bytes

definition WriteHeader :: "nat \<Rightarrow> ResponseWriter \<Rightarrow> ResponseWriter" where
  "WriteHeader code resw =
     (case rw_status resw of None \<Rightarrow> resw\<lparr>rw_status := Some code\<rparr> | Some _ \<Rightarrow> resw)"

definition Write :: "bytes \<Rightarrow> ResponseWriter \<Rightarrow> ResponseWriter" where
  "Write bs resw =
     (let resw' = WriteHeader 200 resw in resw'\<lparr>rw_body := rw_body resw' @ bs\<rparr>)"

definition StatusNotFound :: nat where
  "StatusNotFound = 404"

definition StatusBadRequest :: nat where
  "StatusBadRequest = 400"

text \<open>
  The part of \<^verbatim>\<open>http.Request\<close> that \<^verbatim>\<open>handle\<close> reads: the method, \<^verbatim>\<open>URL.Path\<close>
  and the body stream (the bytes not read yet).
\<close>

record Request =
  req_Method :: string
  req_URL_Path :: string
  req_Body :: bytes

text \<open>
  \<^verbatim>\<open>Body.Read(p)\<close> follows the \<^verbatim>\<open>io.Reader\<close> contract: it stores at most
  \<^verbatim>\<open>len(p)\<close> bytes into \<open>p\<close> and never changes the length of \<open>p\<close>. The result is
  the buffer after the call, the count read, and the stream that is left.
\<close>

definition Body_Read :: "bytes \<Rightarrow> bytes \<Rightarrow> bytes \<times> nat \<times> bytes" where
  "Body_Read stream p =
     (let n = min (length p) (length stream)
      in (take n stream @ drop n p, n, drop n stream))"

section \<open>Routes, request bodies, middleware\<close>

type_synonym RequestMethod = string

definition get :: RequestMethod where "get = ''GET''"
definition post :: RequestMethod where "post = ''POST''"
definition put :: RequestMethod where "put = ''PUT''"
definition delete :: RequestMethod where "delete = ''DELETE''"

datatype HandlingMode = Sync | Async

datatype AuthRequire = UseAuth | NoAuth

fun bool_of_AuthRequire :: "AuthRequire \<Rightarrow> bool" where
  "bool_of_AuthRequire UseAuth = True"
| "bool_of_AuthRequire NoAuth = False"

text \<open>
  \<^verbatim>\<open>RequestBody\<close> of the adaptive file has three fields; the other file adds
  \<^verbatim>\<open>ResponseW\<close>, the writer the handler may use (\<open>None\<close> for the nil interface).
\<close>

record RequestBody =
  JsonData :: bytes
  Params :: Parameters
  Claims :: "string \<rightharpoonup> string"

record RequestBodyW = RequestBody +
  ResponseW :: "ResponseWriter option"

text \<open>
  Handlers and middleware are callbacks of the application. Their effects outside the
  router are a state transformer on a world \<open>'w\<close> of the application's choosing. A
  middleware receives pointers to the request body and the writer, so it returns both as
  it left them. Callbacks are taken not to call back into the registration functions
  while a request is being handled.
\<close>

type_synonym 'w Handler = "RequestBody \<Rightarrow> 'w \<Rightarrow> 'w"

type_synonym 'w MiddlewareFunc =
  "RequestBody \<Rightarrow> ResponseWriter \<Rightarrow> Request \<Rightarrow> 'w \<Rightarrow> RequestBody \<times> ResponseWriter \<times> 'w"

record 'w RouteInfo =
  Mode :: HandlingMode
  Endpoint :: string
  Method :: RequestMethod
  AuthRequired :: bool
  HandlerF :: "'w Handler"

type_synonym int64 = "64 word"

text \<open>
  Go's \<^verbatim>\<open>/\<close> on \<^verbatim>\<open>int64\<close> truncates towards zero and wraps on the one overflowing
  quotient; a zero divisor panics and is checked by the caller.
\<close>

definition int64_quo :: "int64 \<Rightarrow> int64 \<Rightarrow> int64" where
  "int64_quo a b = word_of_int (sint a sdiv sint b)"

definition resetAt :: int64 where
  "resetAt = 9223372036054775807"

text \<open>
  The package-level variables, the world of the callbacks, and the goroutines started
  with \<^verbatim>\<open>go v.HandlerF(rqbody)\<close> that the dispatcher does not wait for.
\<close>

record 'w State =
  RoutePrefix :: string
  middlewares :: "'w MiddlewareFunc list"
  routes :: "'w RouteInfo list"
  avarageResMs :: int64
  totalRequest :: int64
  startOptimizeAt :: int64
  world :: 'w
  goroutines :: "('w Handler \<times> RequestBody) list"

definition init :: "'w \<Rightarrow> 'w State" where
  "init w = \<lparr>RoutePrefix = ''/api'', middlewares = [], routes = [],
     avarageResMs = 0, totalRequest = 0, startOptimizeAt = 1000,
     world = w, goroutines = []\<rparr>"

definition AddMiddleware :: "'w MiddlewareFunc \<Rightarrow> 'w State \<Rightarrow> 'w State" where
  "AddMiddleware f st = st\<lparr>middlewares := middlewares st @ [f]\<rparr>"

definition MapGet :: "HandlingMode \<Rightarrow> string \<Rightarrow> AuthRequire \<Rightarrow> 'w Handler \<Rightarrow> 'w State \<Rightarrow> 'w State" where
  "MapGet mode path auth f st = st\<lparr>routes := routes st @
     [\<lparr>Mode = mode, Endpoint = RoutePrefix st @ path, Method = get,
       AuthRequired = bool_of_AuthRequire auth, HandlerF = f\<rparr>]\<rparr>"

definition MapPost :: "HandlingMode \<Rightarrow> string \<Rightarrow> AuthRequire \<Rightarrow> 'w Handler \<Rightarrow> 'w State \<Rightarrow> 'w State" where
  "MapPost mode path auth f st = st\<lparr>routes := routes st @
     [\<lparr>Mode = mode, Endpoint = RoutePrefix st @ path, Method = post,
       AuthRequired = bool_of_AuthRequire auth, HandlerF = f\<rparr>]\<rparr>"

definition MapPut :: "HandlingMode \<Rightarrow> string \<Rightarrow> AuthRequire \<Rightarrow> 'w Handler \<Rightarrow> 'w State \<Rightarrow> 'w State" where
  "MapPut mode path auth f st = st\<lparr>routes := routes st @
     [\<lparr>Mode = mode, Endpoint = RoutePrefix st @ path, Method = put,
       AuthRequired = bool_of_AuthRequire auth, HandlerF = f\<rparr>]\<rparr>"

definition MapDelete :: "HandlingMode \<Rightarrow> string \<Rightarrow> AuthRequire \<Rightarrow> 'w Handler \<Rightarrow> 'w State \<Rightarrow> 'w State" where
  "MapDelete mode path auth f st = st\<lparr>routes := routes st @
     [\<lparr>Mode = mode, Endpoint = RoutePrefix st @ path, Method = delete,
       AuthRequired = bool_of_AuthRequire auth, HandlerF = f\<rparr>]\<rparr>"

definition SetOptimizationThreshold :: "int64 \<Rightarrow> 'w State \<Rightarrow> 'w State" where
  "SetOptimizationThreshold threshold st = st\<lparr>startOptimizeAt := threshold\<rparr>"

section \<open>The dispatcher with adaptive mode\<close>

text \<open>
  How a call of \<^verbatim>\<open>handle\<close> ended: one constructor for each \<^verbatim>\<open>return\<close> of the
  source in its order, the fall-through after the loop, and the run-time panic of an
  integer division by zero.
\<close>

datatype Exit =
  MethodMismatch | ParamCountMismatch | Dispatched | RouteNotFound | DivideByZero

record 'w Result =
  res_state :: "'w State"
  res_resw :: ResponseWriter
  res_exit :: Exit

text \<open>The loop \<^verbatim>\<open>for _, m := range middlewares\<close>.\<close>

fun run_middlewares ::
  "'w MiddlewareFunc list \<Rightarrow> Request \<Rightarrow> RequestBody \<times> ResponseWriter \<times> 'w
     \<Rightarrow> RequestBody \<times> ResponseWriter \<times> 'w" where
  "run_middlewares [] req s = s"
| "run_middlewares (m # ms) req (rqbody, resw, w) =
     run_middlewares ms req (m rqbody resw req w)"

text \<open>
  The statements between the two \<^verbatim>\<open>Lock\<close> and the two \<^verbatim>\<open>Unlock\<close> calls, for the
  route \<open>v\<close> that the loop reached at index \<open>i\<close> of the table. \<open>elapsed\<close> is what
  \<^verbatim>\<open>time.Since(t).Microseconds()\<close> returned. One request is handled at a time, so the
  mutexes do nothing here. \<open>reset_statistics\<close> is the first \<^verbatim>\<open>if\<close> of the block.
\<close>

definition reset_statistics :: "'w State \<Rightarrow> 'w State" where
  "reset_statistics st =
     (if totalRequest st = resetAt \<or> avarageResMs st = resetAt
      then st\<lparr>totalRequest := 0, avarageResMs := 0\<rparr> else st)"

definition optimize :: "nat \<Rightarrow> 'w RouteInfo \<Rightarrow> int64 \<Rightarrow> 'w State \<Rightarrow> 'w State \<times> Exit" where
  "optimize i v elapsed st =
     (let st1 = reset_statistics st;
          st2 = (if startOptimizeAt st1 <s totalRequest st1 \<and> avarageResMs st1 <s elapsed
                    \<and> Mode v \<noteq> Async
                 then st1\<lparr>routes := (routes st1)[i := v\<lparr>Mode := Async\<rparr>]\<rparr> else st1);
          st3 = st2\<lparr>totalRequest := totalRequest st2 + 1\<rparr>
      in if totalRequest st3 = 0 then (st3, DivideByZero)
         else (st3\<lparr>avarageResMs := avarageResMs st3 + int64_quo elapsed (totalRequest st3)\<rparr>,
               Dispatched))"

text \<open>
  The body of the loop once \<^verbatim>\<open>req.URL.Path == v.Endpoint\<close> holds for the route \<open>v\<close>
  at index \<open>i\<close>: every path through it returns.
\<close>

definition serve ::
  "nat \<Rightarrow> 'w RouteInfo \<Rightarrow> 'w State \<Rightarrow> ResponseWriter \<Rightarrow> Request \<Rightarrow> int64 \<Rightarrow> 'w Result" where
  "serve i v st resw req elapsed =
     (if req_Method req \<noteq> Method v
      then \<lparr>res_state = st, res_resw = WriteHeader StatusNotFound resw,
            res_exit = MethodMismatch\<rparr>
      else
        (case extractParams (req_URL_Path req) (Endpoint v) of
           Inl err \<Rightarrow>
             \<lparr>res_state = st,
              res_resw = Write (Error err) (WriteHeader StatusBadRequest resw),
              res_exit = ParamCountMismatch\<rparr>
         | Inr params \<Rightarrow>
             (let rqbody0 = \<lparr>JsonData = [], Params = Map.empty, Claims = Map.empty\<rparr>;
                  rqbody1 = rqbody0\<lparr>Params := params\<rparr>;
                  (buf, n, rest) = Body_Read (req_Body req) (JsonData rqbody1);
                  rqbody2 = rqbody1\<lparr>JsonData := buf\<rparr>;
                  req1 = req\<lparr>req_Body := rest\<rparr>;
                  (rqbody, resw1, w) =
                     run_middlewares (middlewares st) req1 (rqbody2, resw, world st);
                  st1 = (if Mode v = Async
                         then st\<lparr>world := w,
                                 goroutines := goroutines st @ [(HandlerF v, rqbody)]\<rparr>
                         else st\<lparr>world := HandlerF v rqbody w\<rparr>);
                  (st2, exit) = optimize i v elapsed st1
              in \<lparr>res_state = st2, res_resw = resw1, res_exit = exit\<rparr>)))"

text \<open>
  The loop \<^verbatim>\<open>for _, v := range routes\<close> from index \<open>i\<close> on, and the
  \<^verbatim>\<open>WriteHeader\<close> after it.
\<close>

fun handle_range ::
  "nat \<Rightarrow> 'w RouteInfo list \<Rightarrow> 'w State \<Rightarrow> ResponseWriter \<Rightarrow> Request \<Rightarrow> int64 \<Rightarrow> 'w Result" where
  "handle_range i [] st resw req elapsed =
     \<lparr>res_state = st, res_resw = WriteHeader StatusNotFound resw, res_exit = RouteNotFound\<rparr>"
| "handle_range i (v # vs) st resw req elapsed =
     (if req_URL_Path req = Endpoint v then serve i v st resw req elapsed
      else handle_range (Suc i) vs st resw req elapsed)"

definition handle :: "'w State \<Rightarrow> ResponseWriter \<Rightarrow> Request \<Rightarrow> int64 \<Rightarrow> 'w Result" where
  "handle st resw req elapsed = handle_range 0 (routes st) st resw req elapsed"

text \<open>
  The server calls \<^verbatim>\<open>handle\<close> once for each request, each with a writer nothing was
  written to; the requests come with the elapsed time measured for them.
\<close>

definition fresh_writer :: ResponseWriter where
  "fresh_writer = \<lparr>rw_status = None, rw_body = []\<rparr>"

fun handle_all :: "'w State \<Rightarrow> (Request \<times> int64) list \<Rightarrow> 'w State" where
  "handle_all st [] = st"
| "handle_all st ((req, elapsed) # rs) =
     handle_all (res_state (handle st fresh_writer req elapsed)) rs"

section \<open>The dispatcher without adaptive mode\<close>

text \<open>
  The second source file has no mode and no statistics; its request body carries the
  writer in \<^verbatim>\<open>ResponseW\<close>, so a handler can answer through it and returns the writer
  as it left it. Its definitions carry the suffix \<open>W\<close>.
\<close>

type_synonym 'w HandlerW = "RequestBodyW \<Rightarrow> 'w \<Rightarrow> ResponseWriter \<times> 'w"

type_synonym 'w MiddlewareFuncW =
  "RequestBodyW \<Rightarrow> ResponseWriter \<Rightarrow> Request \<Rightarrow> 'w \<Rightarrow> RequestBodyW \<times> ResponseWriter \<times> 'w"

record 'w RouteInfoW =
  EndpointW :: string
  MethodW :: RequestMethod
  AuthRequiredW :: bool
  HandlerFW :: "'w HandlerW"

record 'w StateW =
  RoutePrefixW :: string
  middlewaresW :: "'w MiddlewareFuncW list"
  routesW :: "'w RouteInfoW list"
  worldW :: 'w

definition initW :: "'w \<Rightarrow> 'w StateW" where
  "initW w = \<lparr>RoutePrefixW = ''/api'', middlewaresW = [], routesW = [], worldW = w\<rparr>"

definition AddMiddlewareW :: "'w MiddlewareFuncW \<Rightarrow> 'w StateW \<Rightarrow> 'w StateW" where
  "AddMiddlewareW f st = st\<lparr>middlewaresW := middlewaresW st @ [f]\<rparr>"

definition MapGetW :: "string \<Rightarrow> AuthRequire \<Rightarrow> 'w HandlerW \<Rightarrow> 'w StateW \<Rightarrow> 'w StateW" where
  "MapGetW path auth f st = st\<lparr>routesW := routesW st @
     [\<lparr>EndpointW = RoutePrefixW st @ path, MethodW = get,
       AuthRequiredW = bool_of_AuthRequire auth, HandlerFW = f\<rparr>]\<rparr>"

definition MapPostW :: "string \<Rightarrow> AuthRequire \<Rightarrow> 'w HandlerW \<Rightarrow> 'w StateW \<Rightarrow> 'w StateW" where
  "MapPostW path auth f st = st\<lparr>routesW := routesW st @
     [\<lparr>EndpointW = RoutePrefixW st @ path, MethodW = post,
       AuthRequiredW = bool_of_AuthRequire auth, HandlerFW = f\<rparr>]\<rparr>"

definition MapPutW :: "string \<Rightarrow> AuthRequire \<Rightarrow> 'w HandlerW \<Rightarrow> 'w StateW \<Rightarrow> 'w StateW" where
  "MapPutW path auth f st = st\<lparr>routesW := routesW st @
     [\<lparr>EndpointW = RoutePrefixW st @ path, MethodW = put,
       AuthRequiredW = bool_of_AuthRequire auth, HandlerFW = f\<rparr>]\<rparr>"

definition MapDeleteW :: "string \<Rightarrow> AuthRequire \<Rightarrow> 'w HandlerW \<Rightarrow> 'w StateW \<Rightarrow> 'w StateW" where
  "MapDeleteW path auth f st = st\<lparr>routesW := routesW st @
     [\<lparr>EndpointW = RoutePrefixW st @ path, MethodW = delete,
       AuthRequiredW = bool_of_AuthRequire auth, HandlerFW = f\<rparr>]\<rparr>"

record 'w ResultW =
  resW_state :: "'w StateW"
  resW_resw :: ResponseWriter
  resW_exit :: Exit

fun run_middlewaresW ::
  "'w MiddlewareFuncW list \<Rightarrow> Request \<Rightarrow> RequestBodyW \<times> ResponseWriter \<times> 'w
     \<Rightarrow> RequestBodyW \<times> ResponseWriter \<times> 'w" where
  "run_middlewaresW [] req s = s"
| "run_middlewaresW (m # ms) req (rqbody, resw, w) =
     run_middlewaresW ms req (m rqbody resw req w)"

definition serveW ::
  "'w RouteInfoW \<Rightarrow> 'w StateW \<Rightarrow> ResponseWriter \<Rightarrow> Request \<Rightarrow> 'w ResultW" where
  "serveW v st resw req =
     (if req_Method req \<noteq> MethodW v
      then \<lparr>resW_state = st, resW_resw = WriteHeader StatusNotFound resw,
            resW_exit = MethodMismatch\<rparr>
      else
        (case extractParams (req_URL_Path req) (EndpointW v) of
           Inl err \<Rightarrow>
             \<lparr>resW_state = st,
              resW_resw = Write (Error err) (WriteHeader StatusBadRequest resw),
              resW_exit = ParamCountMismatch\<rparr>
         | Inr params \<Rightarrow>
             (let rqbody0 = \<lparr>JsonData = [], Params = Map.empty, Claims = Map.empty,
                             ResponseW = None\<rparr>;
                  rqbody1 = rqbody0\<lparr>Params := params\<rparr>;
                  (buf, n, rest) = Body_Read (req_Body req) (JsonData rqbody1);
                  rqbody2 = rqbody1\<lparr>JsonData := buf\<rparr>;
                  req1 = req\<lparr>req_Body := rest\<rparr>;
                  (rqbody3, resw1, w) =
                     run_middlewaresW (middlewaresW st) req1 (rqbody2, resw, worldW st);
                  rqbody = rqbody3\<lparr>ResponseW := Some resw1\<rparr>;
                  (resw2, w') = HandlerFW v rqbody w
              in \<lparr>resW_state = st\<lparr>worldW := w'\<rparr>, resW_resw = resw2,
                  resW_exit = Dispatched\<rparr>)))"

fun handle_rangeW ::
  "'w RouteInfoW list \<Rightarrow> 'w StateW \<Rightarrow> ResponseWriter \<Rightarrow> Request \<Rightarrow> 'w ResultW" where
  "handle_rangeW [] st resw req =
     \<lparr>resW_state = st, resW_resw = WriteHeader StatusNotFound resw, resW_exit = RouteNotFound\<rparr>"
| "handle_rangeW (v # vs) st resw req =
     (if req_URL_Path req = EndpointW v then serveW v st resw req
      else handle_rangeW vs st resw req)"

definition handleW :: "'w StateW \<Rightarrow> ResponseWriter \<Rightarrow> Request \<Rightarrow> 'w ResultW" where
  "handleW st resw req = handle_rangeW (routesW st) st resw req"

section \<open>The scanner as the specification words it\<close>




section \<open>An application for the scenarios\<close>

text \<open>
  The world of this application is the list of request bodies its callbacks were called
  with, in the order of the calls: a handler or middleware appends the body it received
  and does nothing else.
\<close>

definition record_call :: "RequestBody list Handler" where
  "record_call rqbody calls = calls @ [rqbody]"

definition record_middleware :: "RequestBody list MiddlewareFunc" where
  "record_middleware rqbody resw req calls = (rqbody, resw, calls @ [rqbody])"

definition record_callW :: "RequestBodyW list HandlerW" where
  "record_callW rqbody calls =
     ((case ResponseW rqbody of None \<Rightarrow> fresh_writer | Some resw \<Rightarrow> resw), calls @ [rqbody])"

definition record_middlewareW :: "RequestBodyW list MiddlewareFuncW" where
  "record_middlewareW rqbody resw req calls = (rqbody, resw, calls @ [rqbody])"

text \<open>
  A second application only counts the calls of its handler. \<open>work_app\<close> registers one
  synchronous route with the promotion threshold set to 5, and \<open>work_request\<close> is a
  request to it.
\<close>

definition count_call :: "nat Handler" where
  "count_call rqbody n = Suc n"

definition work_app :: "nat State" where
  "work_app = SetOptimizationThreshold 5 (MapGet Sync ''/work'' NoAuth count_call (init 0))"

definition work_request :: Request where
  "work_request = \<lparr>req_Method = ''GET'', req_URL_Path = ''/api/work'', req_Body = []\<rparr>"

text \<open>The equations that evaluate a scenario.\<close>

lemmas scenario_defs =
  handle_def serve_def optimize_def reset_statistics_def resetAt_def int64_quo_def
  handleW_def serveW_def
  init_def initW_def MapGet_def MapPost_def MapDelete_def MapGetW_def MapPostW_def MapDeleteW_def
  AddMiddleware_def AddMiddlewareW_def SetOptimizationThreshold_def
  get_def post_def delete_def extractParams_def paramExtractAlg_def
  WriteHeader_def Write_def StatusNotFound_def StatusBadRequest_def fresh_writer_def
  Body_Read_def record_call_def record_callW_def record_middleware_def record_middlewareW_def
  count_call_def work_app_def work_request_def
  word_sless_alt signed_divide_int_def Let_def

section \<open>Properties of the scanner and of parameter extraction\<close>





lemma extract_fold_dom:
  "n \<le> length lp \<Longrightarrow>
   dom (fold (\<lambda>i result. result(lp ! i \<mapsto> p ! i)) [0..<n] Map.empty) = set (take n lp)"
proof (induction n)
  case 0
  show ?case by simp
next
  case (Suc n)
  then have "n < length lp" and "n \<le> length lp" by simp_all
  with Suc.IH show ?case
    by (auto simp: take_Suc_conv_app_nth dom_if split: if_splits)
qed

lemma extract_fold_last:
  "i < n \<Longrightarrow> (\<forall>j. i < j \<and> j < n \<longrightarrow> lp ! j \<noteq> lp ! i) \<Longrightarrow>
   fold (\<lambda>i result. result(lp ! i \<mapsto> p ! i)) [0..<n] Map.empty (lp ! i) = Some (p ! i)"
proof (induction n)
  case 0
  then show ?case by simp
next
  case (Suc n)
  show ?case
  proof (cases "i = n")
    case True
    then show ?thesis by simp
  next
    case False
    with Suc.prems have "i < n" and "lp ! n \<noteq> lp ! i"
      and "\<forall>j. i < j \<and> j < n \<longrightarrow> lp ! j \<noteq> lp ! i" by auto
    with Suc.IH show ?thesis by simp
  qed
qed

text \<open>
  C8. When the two scans differ in length, \<open>extractParams\<close> returns the error
  \<open>invalid URL params\<close> and no bindings. When they agree it returns a map whose keys are
  the placeholder names of the template and which sends the name at position \<open>i\<close> to the
  path token at position \<open>i\<close>, for every \<open>i\<close> that is the last position of its name:
  a later binding of a repeated name overwrites the earlier one.
\<close>

theorem extractParams_mismatch_or_zip:
  "(length (paramExtractAlg requestPath) \<noteq> length (paramExtractAlg template) \<longrightarrow>
      extractParams requestPath template = Inl (errors_New ''invalid URL params''))
   \<and> (length (paramExtractAlg requestPath) = length (paramExtractAlg template) \<longrightarrow>
      (\<exists>m. extractParams requestPath template = Inr m
         \<and> dom m = set (paramExtractAlg template)
         \<and> (\<forall>i < length (paramExtractAlg template).
              (\<forall>j. i < j \<and> j < length (paramExtractAlg template)
                 \<longrightarrow> paramExtractAlg template ! j \<noteq> paramExtractAlg template ! i)
              \<longrightarrow> m (paramExtractAlg template ! i) = Some (paramExtractAlg requestPath ! i))))"
  by (simp add: extractParams_def Let_def extract_fold_dom extract_fold_last del: upt_Suc)

theorem extractParams_mismatch_or_zip_witness:
  "extractParams ''/api/users/42'' ''/api/users/{id}'' = Inl (errors_New ''invalid URL params'')
   \<and> (\<exists>m. extractParams ''/{1}/{2}'' ''/{x}/{x}'' = Inr m \<and> dom m = {''x''} \<and> m ''x'' = Some ''2'')"
proof -
  have a: "paramExtractAlg ''/api/users/42'' = []" "paramExtractAlg ''/api/users/{id}'' = [''id'']"
    "paramExtractAlg ''/{1}/{2}'' = [''1'', ''2'']" "paramExtractAlg ''/{x}/{x}'' = [''x'', ''x'']"
    by (simp_all add: paramExtractAlg_def)
  have 1: "extractParams ''/api/users/42'' ''/api/users/{id}'' = Inl (errors_New ''invalid URL params'')"
    using extractParams_mismatch_or_zip [of "''/api/users/42''" "''/api/users/{id}''"]
    by (simp add: a)
  have e: "length (paramExtractAlg ''/{1}/{2}'') = length (paramExtractAlg ''/{x}/{x}'')"
    by (simp add: a)
  from extractParams_mismatch_or_zip
         [of "''/{1}/{2}''" "''/{x}/{x}''", THEN conjunct2, rule_format, OF e]
  obtain m where m: "extractParams ''/{1}/{2}'' ''/{x}/{x}'' = Inr m"
    and d: "dom m = set (paramExtractAlg ''/{x}/{x}'')"
    and l: "\<forall>i<length (paramExtractAlg ''/{x}/{x}'').
              (\<forall>j. i < j \<and> j < length (paramExtractAlg ''/{x}/{x}'')
                 \<longrightarrow> paramExtractAlg ''/{x}/{x}'' ! j \<noteq> paramExtractAlg ''/{x}/{x}'' ! i)
              \<longrightarrow> m (paramExtractAlg ''/{x}/{x}'' ! i) = Some (paramExtractAlg ''/{1}/{2}'' ! i)"
    by blast
  have "m ''x'' = Some ''2''"
    using l [THEN spec, of 1] by (simp add: a)
  moreover from d have "dom m = {''x''}" by (simp add: a)
  ultimately show ?thesis using 1 m by blast
qed

section \<open>Properties of the dispatchers\<close>

lemma handle_range_no_match:
  "\<forall>v \<in> set vs. Endpoint v \<noteq> req_URL_Path req \<Longrightarrow>
   handle_range i vs st resw req elapsed =
     \<lparr>res_state = st, res_resw = WriteHeader StatusNotFound resw, res_exit = RouteNotFound\<rparr>"
  by (induction vs arbitrary: i) auto

lemma handle_range_first_match:
  "\<forall>x \<in> set pre. Endpoint x \<noteq> req_URL_Path req \<Longrightarrow> Endpoint v = req_URL_Path req \<Longrightarrow>
   handle_range i (pre @ v # suf) st resw req elapsed =
     serve (i + length pre) v st resw req elapsed"
  by (induction pre arbitrary: i) auto

lemma handle_first_match:
  "routes st = pre @ v # suf \<Longrightarrow> \<forall>x \<in> set pre. Endpoint x \<noteq> req_URL_Path req \<Longrightarrow>
   Endpoint v = req_URL_Path req \<Longrightarrow>
   handle st resw req elapsed = serve (length pre) v st resw req elapsed"
  by (simp add: handle_def handle_range_first_match)

lemma WriteHeader_fresh:
  "WriteHeader code fresh_writer = \<lparr>rw_status = Some code, rw_body = []\<rparr>"
  by (simp add: WriteHeader_def fresh_writer_def)

lemma extractParams_same: "\<exists>m. extractParams p p = Inr m"
  by (simp add: extractParams_def Let_def)

lemma Body_Read_empty_buffer: "Body_Read stream [] = ([], 0, stream)"
  by (simp add: Body_Read_def)

lemma serve_Inr:
  "req_Method req = Method v \<Longrightarrow> extractParams (req_URL_Path req) (Endpoint v) = Inr params \<Longrightarrow>
   serve i v st resw req elapsed =
     (let m = run_middlewares (middlewares st) req
                (\<lparr>JsonData = [], Params = params, Claims = Map.empty\<rparr>, resw, world st);
          st1 = (if Mode v = Async
                 then st\<lparr>world := snd (snd m),
                         goroutines := goroutines st @ [(HandlerF v, fst m)]\<rparr>
                 else st\<lparr>world := HandlerF v (fst m) (snd (snd m))\<rparr>);
          r = optimize i v elapsed st1
      in \<lparr>res_state = fst r, res_resw = fst (snd m), res_exit = snd r\<rparr>)"
  by (simp add: serve_def Body_Read_empty_buffer Let_def split: prod.splits)

lemma serve_mismatch:
  "req_Method req \<noteq> Method v \<Longrightarrow>
   serve i v st resw req elapsed =
     \<lparr>res_state = st, res_resw = WriteHeader StatusNotFound resw, res_exit = MethodMismatch\<rparr>"
  by (simp add: serve_def)

lemma optimize_exit: "snd (optimize i v elapsed st) \<noteq> ParamCountMismatch"
  by (simp add: optimize_def Let_def)

lemma serve_exit:
  "req_URL_Path req = Endpoint v \<Longrightarrow> res_exit (serve i v st resw req elapsed) \<noteq> ParamCountMismatch"
proof (cases "req_Method req = Method v")
  case False
  then show ?thesis by (simp add: serve_def)
next
  case True
  assume "req_URL_Path req = Endpoint v"
  then obtain m where "extractParams (req_URL_Path req) (Endpoint v) = Inr m"
    using extractParams_same [of "Endpoint v"] by auto
  from serve_Inr [OF True this] show ?thesis
    by (simp add: Let_def optimize_exit)
qed

lemma handle_range_exit:
  "res_exit (handle_range i vs st resw req elapsed) \<noteq> ParamCountMismatch"
  by (induction vs arbitrary: i) (simp_all add: serve_exit)

lemma handle_rangeW_no_match:
  "\<forall>v \<in> set vs. EndpointW v \<noteq> req_URL_Path req \<Longrightarrow>
   handle_rangeW vs st resw req =
     \<lparr>resW_state = st, resW_resw = WriteHeader StatusNotFound resw, resW_exit = RouteNotFound\<rparr>"
  by (induction vs) auto

lemma handle_rangeW_first_match:
  "\<forall>x \<in> set pre. EndpointW x \<noteq> req_URL_Path req \<Longrightarrow> EndpointW v = req_URL_Path req \<Longrightarrow>
   handle_rangeW (pre @ v # suf) st resw req = serveW v st resw req"
  by (induction pre) auto

lemma serveW_mismatch:
  "req_Method req \<noteq> MethodW v \<Longrightarrow>
   serveW v st resw req =
     \<lparr>resW_state = st, resW_resw = WriteHeader StatusNotFound resw, resW_exit = MethodMismatch\<rparr>"
  by (simp add: serveW_def)

lemma serveW_exit:
  "req_URL_Path req = EndpointW v \<Longrightarrow> resW_exit (serveW v st resw req) \<noteq> ParamCountMismatch"
  using extractParams_same [of "EndpointW v"]
  by (auto simp: serveW_def Let_def split: prod.splits)

lemma handle_rangeW_exit:
  "resW_exit (handle_rangeW vs st resw req) \<noteq> ParamCountMismatch"
  by (induction vs) (simp_all add: serveW_exit)

text \<open>
  C10. The branch that answers 400 is dead code in both dispatchers: \<open>extractParams\<close>
  is only called after the request path and the endpoint were found equal, two scans of
  the same string have the same length, and so no call of \<open>handle\<close> ever leaves
  through the \<open>ParamCountMismatch\<close> return.
\<close>

theorem handle_never_exits_ParamCountMismatch:
  "(\<exists>m. extractParams p p = Inr m)
   \<and> res_exit (handle st resw req elapsed) \<noteq> ParamCountMismatch
   \<and> resW_exit (handleW stW resw req) \<noteq> ParamCountMismatch"
  by (simp add: extractParams_same handle_def handleW_def handle_range_exit handle_rangeW_exit)

text \<open>
  C3. A request whose path is the endpoint of no route, and a request whose path is the
  endpoint of a route (the first such route in registration order) with another method,
  get the same response: status 404 and an empty body. Nothing else changes.
\<close>

theorem handle_not_found_same_as_method_mismatch:
  "(\<forall>v \<in> set (routes st). Endpoint v \<noteq> req_URL_Path req)
   \<or> (\<exists>pre v suf. routes st = pre @ v # suf
         \<and> (\<forall>x \<in> set pre. Endpoint x \<noteq> req_URL_Path req)
         \<and> Endpoint v = req_URL_Path req \<and> req_Method req \<noteq> Method v) \<Longrightarrow>
   res_resw (handle st fresh_writer req elapsed) = \<lparr>rw_status = Some 404, rw_body = []\<rparr>
   \<and> res_state (handle st fresh_writer req elapsed) = st"
proof (elim disjE exE conjE)
  assume "\<forall>v \<in> set (routes st). Endpoint v \<noteq> req_URL_Path req"
  then show ?thesis
    by (simp add: handle_def handle_range_no_match WriteHeader_fresh StatusNotFound_def)
next
  fix pre v suf
  assume "routes st = pre @ v # suf" "\<forall>x \<in> set pre. Endpoint x \<noteq> req_URL_Path req"
    "Endpoint v = req_URL_Path req" "req_Method req \<noteq> Method v"
  then show ?thesis
    by (simp add: handle_first_match serve_mismatch WriteHeader_fresh StatusNotFound_def)
qed

theorem handle_not_found_same_as_method_mismatch_witness:
  "res_resw (handle (MapGet Sync ''/users'' NoAuth record_call (init []))
      fresh_writer \<lparr>req_Method = ''GET'', req_URL_Path = ''/api/nonexistent'', req_Body = []\<rparr> 0)
    = \<lparr>rw_status = Some 404, rw_body = []\<rparr>
   \<and> res_resw (handle (MapGet Sync ''/users'' NoAuth record_call (init []))
      fresh_writer \<lparr>req_Method = ''DELETE'', req_URL_Path = ''/api/users'', req_Body = []\<rparr> 0)
    = \<lparr>rw_status = Some 404, rw_body = []\<rparr>"
proof -
  let ?app = "MapGet Sync ''/users'' NoAuth record_call (init [])"
  let ?r1 = "\<lparr>req_Method = ''GET'', req_URL_Path = ''/api/nonexistent'', req_Body = []\<rparr>"
  let ?r2 = "\<lparr>req_Method = ''DELETE'', req_URL_Path = ''/api/users'', req_Body = []\<rparr>"
  have h1: "(\<forall>v \<in> set (routes ?app). Endpoint v \<noteq> req_URL_Path ?r1)
   \<or> (\<exists>pre v suf. routes ?app = pre @ v # suf
         \<and> (\<forall>x \<in> set pre. Endpoint x \<noteq> req_URL_Path ?r1)
         \<and> Endpoint v = req_URL_Path ?r1 \<and> req_Method ?r1 \<noteq> Method v)"
    by (rule disjI1) (simp add: MapGet_def init_def)
  have h2: "(\<forall>v \<in> set (routes ?app). Endpoint v \<noteq> req_URL_Path ?r2)
   \<or> (\<exists>pre v suf. routes ?app = pre @ v # suf
         \<and> (\<forall>x \<in> set pre. Endpoint x \<noteq> req_URL_Path ?r2)
         \<and> Endpoint v = req_URL_Path ?r2 \<and> req_Method ?r2 \<noteq> Method v)"
    by (rule disjI2, rule exI [of _ "[]"]) (simp add: MapGet_def init_def get_def)
  from handle_not_found_same_as_method_mismatch [OF h1, of 0]
       handle_not_found_same_as_method_mismatch [OF h2, of 0] show ?thesis by simp
qed

text \<open>
  C4. When the first route whose endpoint equals the request path has another method, the
  scan ends there with 404, whatever follows in the table: a later route with the same
  endpoint and the request's method is not reached, and the state, with the world of the
  handlers and the started goroutines, is left as it was. This holds for both dispatchers.
\<close>

theorem handle_first_match_no_fallthrough:
  "(routes st = pre @ v1 # mid @ v2 # suf
      \<and> (\<forall>x \<in> set pre. Endpoint x \<noteq> req_URL_Path req)
      \<and> Endpoint v1 = req_URL_Path req \<and> Endpoint v2 = Endpoint v1
      \<and> req_Method req \<noteq> Method v1 \<and> req_Method req = Method v2
    \<longrightarrow> handle st resw req elapsed =
          \<lparr>res_state = st, res_resw = WriteHeader StatusNotFound resw, res_exit = MethodMismatch\<rparr>)
   \<and> (routesW stW = preW @ w1 # midW @ w2 # sufW
      \<and> (\<forall>x \<in> set preW. EndpointW x \<noteq> req_URL_Path req)
      \<and> EndpointW w1 = req_URL_Path req \<and> EndpointW w2 = EndpointW w1
      \<and> req_Method req \<noteq> MethodW w1 \<and> req_Method req = MethodW w2
    \<longrightarrow> handleW stW resw req =
          \<lparr>resW_state = stW, resW_resw = WriteHeader StatusNotFound resw, resW_exit = MethodMismatch\<rparr>)"
proof (intro conjI impI; elim conjE)
  assume "routes st = pre @ v1 # mid @ v2 # suf" "\<forall>x \<in> set pre. Endpoint x \<noteq> req_URL_Path req"
    "Endpoint v1 = req_URL_Path req" "req_Method req \<noteq> Method v1"
  then show "handle st resw req elapsed =
          \<lparr>res_state = st, res_resw = WriteHeader StatusNotFound resw, res_exit = MethodMismatch\<rparr>"
    by (simp add: handle_first_match [where suf = "mid @ v2 # suf"] serve_mismatch)
next
  assume "routesW stW = preW @ w1 # midW @ w2 # sufW" "\<forall>x \<in> set preW. EndpointW x \<noteq> req_URL_Path req"
    "EndpointW w1 = req_URL_Path req" "req_Method req \<noteq> MethodW w1"
  then show "handleW stW resw req =
          \<lparr>resW_state = stW, resW_resw = WriteHeader StatusNotFound resw, resW_exit = MethodMismatch\<rparr>"
    by (simp add: handleW_def handle_rangeW_first_match [where suf = "midW @ w2 # sufW"] serveW_mismatch)
qed

theorem handle_first_match_no_fallthrough_witness:
  "handle (MapDelete Sync ''/users'' NoAuth record_call
             (MapGet Sync ''/users'' NoAuth record_call (init [])))
      fresh_writer \<lparr>req_Method = ''DELETE'', req_URL_Path = ''/api/users'', req_Body = []\<rparr> 0
    = \<lparr>res_state = MapDelete Sync ''/users'' NoAuth record_call
             (MapGet Sync ''/users'' NoAuth record_call (init [])),
       res_resw = \<lparr>rw_status = Some 404, rw_body = []\<rparr>, res_exit = MethodMismatch\<rparr>
   \<and> world (MapDelete Sync ''/users'' NoAuth record_call
             (MapGet Sync ''/users'' NoAuth record_call (init []))) = []
   \<and> handleW (MapDeleteW ''/users'' NoAuth record_callW
             (MapGetW ''/users'' NoAuth record_callW (initW [])))
      fresh_writer \<lparr>req_Method = ''DELETE'', req_URL_Path = ''/api/users'', req_Body = []\<rparr>
    = \<lparr>resW_state = MapDeleteW ''/users'' NoAuth record_callW
             (MapGetW ''/users'' NoAuth record_callW (initW [])),
       resW_resw = \<lparr>rw_status = Some 404, rw_body = []\<rparr>, resW_exit = MethodMismatch\<rparr>"
proof -
  let ?g = "\<lparr>Mode = Sync, Endpoint = ''/api/users'', Method = ''GET'',
             AuthRequired = False, HandlerF = record_call\<rparr>"
  let ?d = "\<lparr>Mode = Sync, Endpoint = ''/api/users'', Method = ''DELETE'',
             AuthRequired = False, HandlerF = record_call\<rparr>"
  let ?gW = "\<lparr>EndpointW = ''/api/users'', MethodW = ''GET'',
             AuthRequiredW = False, HandlerFW = record_callW\<rparr>"
  let ?dW = "\<lparr>EndpointW = ''/api/users'', MethodW = ''DELETE'',
             AuthRequiredW = False, HandlerFW = record_callW\<rparr>"
  let ?app = "MapDelete Sync ''/users'' NoAuth record_call
             (MapGet Sync ''/users'' NoAuth record_call (init []))"
  let ?appW = "MapDeleteW ''/users'' NoAuth record_callW
             (MapGetW ''/users'' NoAuth record_callW (initW []))"
  let ?r = "\<lparr>req_Method = ''DELETE'', req_URL_Path = ''/api/users'', req_Body = []\<rparr>"
  have h: "routes ?app = [] @ ?g # [] @ ?d # []
      \<and> (\<forall>x \<in> set []. Endpoint x \<noteq> req_URL_Path ?r)
      \<and> Endpoint ?g = req_URL_Path ?r \<and> Endpoint ?d = Endpoint ?g
      \<and> req_Method ?r \<noteq> Method ?g \<and> req_Method ?r = Method ?d"
    by (simp add: MapGet_def MapDelete_def init_def get_def delete_def)
  have hW: "routesW ?appW = [] @ ?gW # [] @ ?dW # []
      \<and> (\<forall>x \<in> set []. EndpointW x \<noteq> req_URL_Path ?r)
      \<and> EndpointW ?gW = req_URL_Path ?r \<and> EndpointW ?dW = EndpointW ?gW
      \<and> req_Method ?r \<noteq> MethodW ?gW \<and> req_Method ?r = MethodW ?dW"
    by (simp add: MapGetW_def MapDeleteW_def initW_def get_def delete_def)
  have w: "world ?app = []" by (simp add: MapGet_def MapDelete_def init_def)
  note t = handle_first_match_no_fallthrough
    [of ?app "[]" ?g "[]" ?d "[]" ?r fresh_writer 0 ?appW "[]" ?gW "[]" ?dW "[]"]
  from t [THEN conjunct1, rule_format, OF h] t [THEN conjunct2, rule_format, OF hW] w
  show ?thesis by (simp add: WriteHeader_fresh StatusNotFound_def)
qed

text \<open>
  C1 does not hold of the code. With \<open>GET /api/users/{id}\<close> registered, the request
  \<open>GET /api/users/42\<close> is answered 404 and the handler is not called, in both
  dispatchers: a route is selected by equality of the request path with the endpoint
  string, braces included. Only the literal path \<open>/api/users/{id}\<close> is dispatched, and
  then \<open>id\<close> is bound to the text \<open>id\<close>.
\<close>

theorem handle_template_route_rejects_concrete_path:
  "handle (MapGet Sync ''/users/{id}'' NoAuth record_call (init []))
      fresh_writer \<lparr>req_Method = ''GET'', req_URL_Path = ''/api/users/42'', req_Body = []\<rparr> elapsed
    = \<lparr>res_state = MapGet Sync ''/users/{id}'' NoAuth record_call (init []),
       res_resw = \<lparr>rw_status = Some 404, rw_body = []\<rparr>, res_exit = RouteNotFound\<rparr>
   \<and> world (MapGet Sync ''/users/{id}'' NoAuth record_call (init [])) = []
   \<and> handleW (MapGetW ''/users/{id}'' NoAuth record_callW (initW []))
      fresh_writer \<lparr>req_Method = ''GET'', req_URL_Path = ''/api/users/42'', req_Body = []\<rparr>
    = \<lparr>resW_state = MapGetW ''/users/{id}'' NoAuth record_callW (initW []),
       resW_resw = \<lparr>rw_status = Some 404, rw_body = []\<rparr>, resW_exit = RouteNotFound\<rparr>
   \<and> worldW (MapGetW ''/users/{id}'' NoAuth record_callW (initW [])) = []
   \<and> map (\<lambda>rb. Params rb ''id'') (world (res_state (handle (MapGet Sync ''/users/{id}'' NoAuth record_call (init []))
         fresh_writer \<lparr>req_Method = ''GET'', req_URL_Path = ''/api/users/{id}'', req_Body = []\<rparr> elapsed)))
       = [Some ''id'']"
  by (simp add: scenario_defs)

text \<open>
  C9 does not hold of the code. The request body is read into the \<open>JsonData\<close> of a
  request body that was just created, a buffer of length 0, so nothing is read: the
  middleware and the handler of a dispatched request with body \<open>hello\<close> both receive an
  empty \<open>JsonData\<close>, in both dispatchers.
\<close>

theorem handle_context_JsonData_stays_empty:
  "map JsonData (world (res_state
      (handle (MapPost Sync ''/notes'' NoAuth record_call (AddMiddleware record_middleware (init [])))
         fresh_writer \<lparr>req_Method = ''POST'', req_URL_Path = ''/api/notes'', req_Body = ''hello''\<rparr>
         elapsed))) = [[], []]
   \<and> map JsonData (worldW (resW_state
      (handleW (MapPostW ''/notes'' NoAuth record_callW (AddMiddlewareW record_middlewareW (initW [])))
         fresh_writer \<lparr>req_Method = ''POST'', req_URL_Path = ''/api/notes'', req_Body = ''hello''\<rparr>)))
      = [[], []]"
  by (simp add: scenario_defs)

section \<open>Properties of the adaptive mode\<close>

lemma optimize_totalRequest:
  "totalRequest (fst (optimize i v elapsed st)) = totalRequest (reset_statistics st) + 1"
  by (simp add: optimize_def Let_def)

lemma optimize_avarageResMs:
  "totalRequest (reset_statistics st) + 1 \<noteq> 0 \<Longrightarrow>
   avarageResMs (fst (optimize i v elapsed st)) =
     avarageResMs (reset_statistics st) + int64_quo elapsed (totalRequest (reset_statistics st) + 1)"
  by (simp add: optimize_def Let_def)

lemma optimize_routes:
  "routes (fst (optimize i v elapsed st)) =
     (if startOptimizeAt st <s totalRequest (reset_statistics st)
         \<and> avarageResMs (reset_statistics st) <s elapsed \<and> Mode v \<noteq> Async
      then (routes st)[i := v\<lparr>Mode := Async\<rparr>] else routes st)"
  by (auto simp: optimize_def reset_statistics_def Let_def)

lemma optimize_exit_cases:
  "snd (optimize i v elapsed st) = Dispatched \<or> snd (optimize i v elapsed st) = DivideByZero"
  by (simp add: optimize_def Let_def)

lemma reset_statistics_world [simp]:
  "reset_statistics (st\<lparr>world := w\<rparr>) = (reset_statistics st)\<lparr>world := w\<rparr>"
  "reset_statistics (st\<lparr>goroutines := g\<rparr>) = (reset_statistics st)\<lparr>goroutines := g\<rparr>"
  by (simp_all add: reset_statistics_def)

lemma reset_statistics_fields [simp]:
  "routes (reset_statistics st) = routes st"
  "startOptimizeAt (reset_statistics st) = startOptimizeAt st"
  "world (reset_statistics st) = world st"
  "goroutines (reset_statistics st) = goroutines st"
  by (simp_all add: reset_statistics_def)

lemma serve_totalRequest:
  assumes "req_Method req = Method v" and "Endpoint v = req_URL_Path req"
  shows "totalRequest (res_state (serve i v st resw req elapsed)) =
           totalRequest (reset_statistics st) + 1"
proof -
  from assms(2) obtain m where "extractParams (req_URL_Path req) (Endpoint v) = Inr m"
    using extractParams_same [of "Endpoint v"] by auto
  from serve_Inr [OF assms(1) this, of i st resw elapsed] show ?thesis
    by (cases "Mode v = Async") (simp_all add: Let_def optimize_totalRequest)
qed

lemma serve_avarageResMs:
  assumes "req_Method req = Method v" and "Endpoint v = req_URL_Path req"
    and "totalRequest (reset_statistics st) + 1 \<noteq> 0"
  shows "avarageResMs (res_state (serve i v st resw req elapsed)) =
           avarageResMs (reset_statistics st)
             + int64_quo elapsed (totalRequest (reset_statistics st) + 1)"
proof -
  from assms(2) obtain m where "extractParams (req_URL_Path req) (Endpoint v) = Inr m"
    using extractParams_same [of "Endpoint v"] by auto
  from serve_Inr [OF assms(1) this, of i st resw elapsed] assms(3) show ?thesis
    by (cases "Mode v = Async") (simp_all add: Let_def optimize_avarageResMs)
qed

lemma serve_routes:
  assumes "req_Method req = Method v" and "Endpoint v = req_URL_Path req"
  shows "routes (res_state (serve i v st resw req elapsed)) =
     (if startOptimizeAt st <s totalRequest (reset_statistics st)
         \<and> avarageResMs (reset_statistics st) <s elapsed \<and> Mode v \<noteq> Async
      then (routes st)[i := v\<lparr>Mode := Async\<rparr>] else routes st)"
proof -
  from assms(2) obtain m where "extractParams (req_URL_Path req) (Endpoint v) = Inr m"
    using extractParams_same [of "Endpoint v"] by auto
  from serve_Inr [OF assms(1) this, of i st resw elapsed] show ?thesis
    by (cases "Mode v = Async") (simp_all add: Let_def optimize_routes)
qed

lemma serve_routes_any:
  "routes (res_state (serve i v st resw req elapsed)) = routes st
   \<or> routes (res_state (serve i v st resw req elapsed)) = (routes st)[i := v\<lparr>Mode := Async\<rparr>]"
proof (cases "req_Method req = Method v")
  case False
  then show ?thesis by (simp add: serve_mismatch)
next
  case True
  show ?thesis
  proof (cases "extractParams (req_URL_Path req) (Endpoint v)")
    case (Inl e)
    with True show ?thesis by (simp add: serve_def)
  next
    case (Inr m)
    from serve_Inr [OF True this, of i st resw elapsed] show ?thesis
      by (cases "Mode v = Async") (simp_all add: Let_def optimize_routes)
  qed
qed

lemma handle_range_routes_any:
  "\<exists>i v. routes (res_state (handle_range k vs st resw req elapsed)) = routes st
   \<or> routes (res_state (handle_range k vs st resw req elapsed)) = (routes st)[i := v\<lparr>Mode := Async\<rparr>]"
proof (induction vs arbitrary: k)
  case Nil
  show ?case by simp
next
  case (Cons v vs)
  show ?case
  proof (cases "req_URL_Path req = Endpoint v")
    case True
    with serve_routes_any [of k v st resw req elapsed] show ?thesis by auto
  next
    case False
    with Cons.IH [of "Suc k"] show ?thesis by simp
  qed
qed

lemma handle_keeps_Async:
  assumes "i < length (routes st)" and "Mode (routes st ! i) = Async"
  shows "i < length (routes (res_state (handle st resw req elapsed)))
         \<and> Mode (routes (res_state (handle st resw req elapsed)) ! i) = Async"
proof -
  from handle_range_routes_any [of 0 "routes st" st resw req elapsed]
  obtain j v where "routes (res_state (handle st resw req elapsed)) = routes st
     \<or> routes (res_state (handle st resw req elapsed)) = (routes st)[j := v\<lparr>Mode := Async\<rparr>]"
    unfolding handle_def by blast
  with assms show ?thesis
    by (cases "j < length (routes st)") (auto simp: nth_list_update)
qed

lemma handle_all_keeps_Async:
  "i < length (routes st) \<Longrightarrow> Mode (routes st ! i) = Async \<Longrightarrow>
   i < length (routes (handle_all st rs)) \<and> Mode (routes (handle_all st rs) ! i) = Async"
proof (induction rs arbitrary: st)
  case Nil
  then show ?case by simp
next
  case (Cons r rs)
  obtain req elapsed where r: "r = (req, elapsed)" by (cases r)
  from handle_keeps_Async [OF Cons.prems, of fresh_writer req elapsed]
  have "i < length (routes (res_state (handle st fresh_writer req elapsed)))"
    and "Mode (routes (res_state (handle st fresh_writer req elapsed)) ! i) = Async"
    by simp_all
  from Cons.IH [OF this] r show ?case by simp
qed

lemma handle_not_dispatched:
  "res_exit (handle_range k vs st resw req elapsed) = RouteNotFound
   \<or> res_exit (handle_range k vs st resw req elapsed) = MethodMismatch \<Longrightarrow>
   res_state (handle_range k vs st resw req elapsed) = st"
proof (induction vs arbitrary: k)
  case Nil
  show ?case by simp
next
  case (Cons v vs)
  show ?case
  proof (cases "req_URL_Path req = Endpoint v")
    case False
    with Cons show ?thesis by simp
  next
    case True
    show ?thesis
    proof (cases "req_Method req = Method v")
      case False
      with True show ?thesis by (simp add: serve_mismatch)
    next
      case m: True
      from True obtain p where "extractParams (req_URL_Path req) (Endpoint v) = Inr p"
        using extractParams_same [of "Endpoint v"] by auto
      from serve_Inr [OF m this, of k st resw elapsed]
      have "res_exit (serve k v st resw req elapsed) = Dispatched
            \<or> res_exit (serve k v st resw req elapsed) = DivideByZero"
        by (simp add: Let_def optimize_exit_cases)
      with Cons.prems True show ?thesis by auto
    qed
  qed
qed

lemma handle_all_append:
  "handle_all st (rs @ rs') = handle_all (handle_all st rs) rs'"
  by (induction rs arbitrary: st) auto

lemma work_after_5:
  "handle_all work_app (map (Pair work_request) [10, 10, 10, 10, 10])
     = work_app\<lparr>avarageResMs := 22, totalRequest := 5, world := 5\<rparr>"
  by (simp add: scenario_defs)

lemma work_after_6:
  "handle_all work_app (map (Pair work_request) [10, 10, 10, 10, 10, 100])
     = work_app\<lparr>avarageResMs := 38, totalRequest := 6, world := 6\<rparr>"
  using handle_all_append [of work_app "map (Pair work_request) [10, 10, 10, 10, 10]"
          "[(work_request, 100)]"]
  by (simp add: work_after_5) (simp add: scenario_defs)

lemma work_after_7:
  "handle_all work_app (map (Pair work_request) [10, 10, 10, 10, 10, 100, 100])
     = work_app\<lparr>routes := [\<lparr>Mode = Async, Endpoint = ''/api/work'', Method = ''GET'',
             AuthRequired = False, HandlerF = count_call\<rparr>],
          avarageResMs := 52, totalRequest := 7, world := 7\<rparr>"
  using handle_all_append [of work_app "map (Pair work_request) [10, 10, 10, 10, 10, 100]"
          "[(work_request, 100)]"]
  by (simp add: work_after_6) (simp add: scenario_defs)

text \<open>
  C6. A dispatched request, when no reset is due, first counts itself and then adds to the
  running average its elapsed time divided by the new count, with Go's truncating
  division. From zero, the elapsed times 10, 20 and 30 give \<open>10/1 + 20/2 + 30/3 = 30\<close>,
  which is not the arithmetic mean 20.
\<close>

theorem running_average_incremental_truncating:
  "(routes st = pre @ v # suf \<and> (\<forall>x \<in> set pre. Endpoint x \<noteq> req_URL_Path req)
      \<and> Endpoint v = req_URL_Path req \<and> req_Method req = Method v
      \<and> totalRequest st \<noteq> resetAt \<and> avarageResMs st \<noteq> resetAt \<and> totalRequest st + 1 \<noteq> 0
    \<longrightarrow> totalRequest (res_state (handle st resw req elapsed)) = totalRequest st + 1
      \<and> avarageResMs (res_state (handle st resw req elapsed)) =
          avarageResMs st + int64_quo elapsed (totalRequest st + 1))
   \<and> totalRequest work_app = 0 \<and> avarageResMs work_app = 0
   \<and> totalRequest (handle_all work_app
        [(work_request, 10), (work_request, 20), (work_request, 30)]) = 3
   \<and> avarageResMs (handle_all work_app
        [(work_request, 10), (work_request, 20), (work_request, 30)])
      = int64_quo 10 1 + int64_quo 20 2 + int64_quo 30 3
   \<and> int64_quo 10 1 + int64_quo 20 2 + int64_quo 30 3 = 30
   \<and> int64_quo (10 + 20 + 30) 3 = 20
   \<and> int64_quo 7 2 = 3 \<and> int64_quo (- 7) 2 = - 3"
proof (intro conjI impI)
  assume h: "routes st = pre @ v # suf \<and> (\<forall>x \<in> set pre. Endpoint x \<noteq> req_URL_Path req)
      \<and> Endpoint v = req_URL_Path req \<and> req_Method req = Method v
      \<and> totalRequest st \<noteq> resetAt \<and> avarageResMs st \<noteq> resetAt \<and> totalRequest st + 1 \<noteq> 0"
  then have s: "handle st resw req elapsed = serve (length pre) v st resw req elapsed"
    by (simp add: handle_first_match)
  from h have r: "reset_statistics st = st" by (simp add: reset_statistics_def)
  from h s r serve_totalRequest [of req v "length pre" st resw elapsed]
  show "totalRequest (res_state (handle st resw req elapsed)) = totalRequest st + 1"
    by simp
  from h s r serve_avarageResMs [of req v st "length pre" resw elapsed]
  show "avarageResMs (res_state (handle st resw req elapsed)) =
          avarageResMs st + int64_quo elapsed (totalRequest st + 1)"
    by simp
qed (simp_all add: scenario_defs)

theorem running_average_incremental_truncating_witness:
  "totalRequest (res_state (handle work_app fresh_writer work_request 10)) = 1
   \<and> avarageResMs (res_state (handle work_app fresh_writer work_request 10)) = 10"
proof -
  let ?v = "\<lparr>Mode = Sync, Endpoint = ''/api/work'', Method = ''GET'',
             AuthRequired = False, HandlerF = count_call\<rparr>"
  have h: "routes work_app = [] @ ?v # [] \<and> (\<forall>x \<in> set []. Endpoint x \<noteq> req_URL_Path work_request)
      \<and> Endpoint ?v = req_URL_Path work_request \<and> req_Method work_request = Method ?v
      \<and> totalRequest work_app \<noteq> resetAt \<and> avarageResMs work_app \<noteq> resetAt
      \<and> totalRequest work_app + 1 \<noteq> 0"
    by (simp add: scenario_defs)
  have z: "totalRequest work_app = 0" "avarageResMs work_app = 0" "int64_quo 10 1 = 10"
    by (simp_all add: scenario_defs)
  from running_average_incremental_truncating
         [of work_app "[]" ?v "[]" work_request fresh_writer 10, THEN conjunct1, rule_format, OF h]
  show ?thesis by (simp add: z)
qed

text \<open>
  C7, as stated, fails: dispatching a route whose mode is \<open>Async\<close> starts the handler as
  a goroutine, does not run it, and still counts the request and adds to the average.
\<close>

theorem async_dispatch_changes_statistics:
  "map Mode (routes (MapGet Async ''/work'' NoAuth count_call (init 0))) = [Async]
   \<and> totalRequest (MapGet Async ''/work'' NoAuth count_call (init 0)) = 0
   \<and> avarageResMs (MapGet Async ''/work'' NoAuth count_call (init 0)) = 0
   \<and> totalRequest (res_state (handle (MapGet Async ''/work'' NoAuth count_call (init 0))
        fresh_writer work_request 7)) = 1
   \<and> avarageResMs (res_state (handle (MapGet Async ''/work'' NoAuth count_call (init 0))
        fresh_writer work_request 7)) = 7
   \<and> length (goroutines (res_state (handle (MapGet Async ''/work'' NoAuth count_call (init 0))
        fresh_writer work_request 7))) = 1
   \<and> world (res_state (handle (MapGet Async ''/work'' NoAuth count_call (init 0))
        fresh_writer work_request 7)) = 0"
  by (simp add: scenario_defs)

text \<open>
  C7, as amended. The statistics are recorded after every dispatched request, whether its
  handler ran inline or was started as a goroutine: the count after a due reset grows by
  one and, unless it wrapped to zero, the average grows by the elapsed time divided by the
  new count. Dispatching an asynchronous route leaves the route table as it was, so
  promotion only ever acts on a synchronous route. A request that ends in 404 changes
  nothing.
\<close>

theorem statistics_recorded_on_every_dispatch:
  "(routes st = pre @ v # suf \<and> (\<forall>x \<in> set pre. Endpoint x \<noteq> req_URL_Path req)
      \<and> Endpoint v = req_URL_Path req \<and> req_Method req = Method v
    \<longrightarrow> totalRequest (res_state (handle st resw req elapsed))
          = totalRequest (reset_statistics st) + 1
      \<and> (totalRequest (reset_statistics st) + 1 \<noteq> 0 \<longrightarrow>
          avarageResMs (res_state (handle st resw req elapsed))
            = avarageResMs (reset_statistics st)
              + int64_quo elapsed (totalRequest (reset_statistics st) + 1))
      \<and> (Mode v = Async \<longrightarrow> routes (res_state (handle st resw req elapsed)) = routes st))
   \<and> (res_exit (handle st resw req elapsed) = RouteNotFound
        \<or> res_exit (handle st resw req elapsed) = MethodMismatch
    \<longrightarrow> res_state (handle st resw req elapsed) = st)"
proof (intro conjI impI)
  assume "res_exit (handle st resw req elapsed) = RouteNotFound
        \<or> res_exit (handle st resw req elapsed) = MethodMismatch"
  then show "res_state (handle st resw req elapsed) = st"
    unfolding handle_def by (rule handle_not_dispatched)
next
  assume h: "routes st = pre @ v # suf \<and> (\<forall>x \<in> set pre. Endpoint x \<noteq> req_URL_Path req)
      \<and> Endpoint v = req_URL_Path req \<and> req_Method req = Method v"
  then have s: "handle st resw req elapsed = serve (length pre) v st resw req elapsed"
    by (simp add: handle_first_match)
  from h s serve_totalRequest [of req v "length pre" st resw elapsed]
  show "totalRequest (res_state (handle st resw req elapsed))
          = totalRequest (reset_statistics st) + 1"
    by simp
  { assume "totalRequest (reset_statistics st) + 1 \<noteq> 0"
    with h s serve_avarageResMs [of req v st "length pre" resw elapsed]
    show "avarageResMs (res_state (handle st resw req elapsed))
            = avarageResMs (reset_statistics st)
              + int64_quo elapsed (totalRequest (reset_statistics st) + 1)"
      by simp }
  { assume "Mode v = Async"
    with h s serve_routes [of req v "length pre" st resw elapsed]
    show "routes (res_state (handle st resw req elapsed)) = routes st"
      by simp }
qed

theorem statistics_recorded_on_every_dispatch_witness:
  "totalRequest (res_state (handle (MapGet Async ''/work'' NoAuth count_call (init 0))
        fresh_writer work_request 7)) = 1
   \<and> avarageResMs (res_state (handle (MapGet Async ''/work'' NoAuth count_call (init 0))
        fresh_writer work_request 7)) = 7
   \<and> routes (res_state (handle (MapGet Async ''/work'' NoAuth count_call (init 0))
        fresh_writer work_request 7)) = routes (MapGet Async ''/work'' NoAuth count_call (init 0))
   \<and> res_state (handle work_app fresh_writer
        \<lparr>req_Method = ''GET'', req_URL_Path = ''/api/none'', req_Body = []\<rparr> 7) = work_app"
proof -
  let ?A = "MapGet Async ''/work'' NoAuth count_call (init 0)"
  let ?v = "\<lparr>Mode = Async, Endpoint = ''/api/work'', Method = ''GET'',
             AuthRequired = False, HandlerF = count_call\<rparr>"
  let ?n = "\<lparr>req_Method = ''GET'', req_URL_Path = ''/api/none'', req_Body = []\<rparr>"
  have h: "routes ?A = [] @ ?v # [] \<and> (\<forall>x \<in> set []. Endpoint x \<noteq> req_URL_Path work_request)
      \<and> Endpoint ?v = req_URL_Path work_request \<and> req_Method work_request = Method ?v"
    by (simp add: scenario_defs)
  have z: "totalRequest (reset_statistics ?A) = 0" "avarageResMs (reset_statistics ?A) = 0"
    "int64_quo 7 1 = 7" "Mode ?v = Async"
    by (simp_all add: scenario_defs)
  have e: "res_exit (handle work_app fresh_writer ?n 7) = RouteNotFound
        \<or> res_exit (handle work_app fresh_writer ?n 7) = MethodMismatch"
    by (simp add: scenario_defs)
  from statistics_recorded_on_every_dispatch
         [of ?A "[]" ?v "[]" work_request fresh_writer 7, THEN conjunct1, rule_format, OF h]
       statistics_recorded_on_every_dispatch
         [of work_app _ _ _ ?n fresh_writer 7, THEN conjunct2, rule_format, OF e]
  show ?thesis by (simp add: z)
qed

text \<open>
  C5, as stated, fails: with the threshold at 5, the sixth synchronous request sees a
  count of 5, which does not exceed 5, so the route stays \<open>Sync\<close> although its elapsed
  time of 100 exceeds the running average of 22.
\<close>

theorem sixth_request_does_not_promote:
  "startOptimizeAt work_app = 5
   \<and> avarageResMs (handle_all work_app (map (Pair work_request) [10, 10, 10, 10, 10])) = 22
   \<and> (22 :: int64) <s 100
   \<and> map Mode (routes (handle_all work_app
        (map (Pair work_request) [10, 10, 10, 10, 10, 100]))) = [Sync]
   \<and> world (handle_all work_app (map (Pair work_request) [10, 10, 10, 10, 10, 100])) = 6"
  by (simp add: work_after_5 work_after_6) (simp add: scenario_defs)

text \<open>
  C5, as amended. Promotion is decided on the count of the requests recorded before the
  current one: a dispatched synchronous route becomes \<open>Async\<close> exactly when that count
  (after a due reset) exceeds the threshold and the elapsed time exceeds the running
  average. With the threshold at 5 this is the seventh request at the earliest. A route
  that is \<open>Async\<close> stays \<open>Async\<close> through every later sequence of requests.
\<close>

theorem promotion_rule_and_no_demotion:
  "(routes st = pre @ v # suf \<and> (\<forall>x \<in> set pre. Endpoint x \<noteq> req_URL_Path req)
      \<and> Endpoint v = req_URL_Path req \<and> req_Method req = Method v \<and> Mode v = Sync
    \<longrightarrow> (Mode (routes (res_state (handle st resw req elapsed)) ! length pre) = Async)
        = (startOptimizeAt st <s totalRequest (reset_statistics st)
           \<and> avarageResMs (reset_statistics st) <s elapsed))
   \<and> (i < length (routes st') \<and> Mode (routes st' ! i) = Async
    \<longrightarrow> i < length (routes (handle_all st' rs))
        \<and> Mode (routes (handle_all st' rs) ! i) = Async)"
proof (intro conjI impI)
  assume "i < length (routes st') \<and> Mode (routes st' ! i) = Async"
  then have "i < length (routes (handle_all st' rs))
        \<and> Mode (routes (handle_all st' rs) ! i) = Async"
    by (simp add: handle_all_keeps_Async)
  then show "i < length (routes (handle_all st' rs))"
    and "Mode (routes (handle_all st' rs) ! i) = Async" by simp_all
next
  assume h: "routes st = pre @ v # suf \<and> (\<forall>x \<in> set pre. Endpoint x \<noteq> req_URL_Path req)
      \<and> Endpoint v = req_URL_Path req \<and> req_Method req = Method v \<and> Mode v = Sync"
  then have s: "handle st resw req elapsed = serve (length pre) v st resw req elapsed"
    by (simp add: handle_first_match)
  from h have v: "routes st ! length pre = v" "Mode v \<noteq> Async" by simp_all
  from h s v serve_routes [of req v "length pre" st resw elapsed]
  show "(Mode (routes (res_state (handle st resw req elapsed)) ! length pre) = Async)
        = (startOptimizeAt st <s totalRequest (reset_statistics st)
           \<and> avarageResMs (reset_statistics st) <s elapsed)"
    by simp
qed

theorem promotion_rule_and_no_demotion_witness:
  "Mode (routes (res_state (handle
      (handle_all work_app (map (Pair work_request) [10, 10, 10, 10, 10, 100]))
      fresh_writer work_request 100)) ! 0) = Async
   \<and> Mode (routes (res_state (handle
      (handle_all work_app (map (Pair work_request) [10, 10, 10, 10, 10]))
      fresh_writer work_request 100)) ! 0) \<noteq> Async
   \<and> Mode (routes (handle_all
      (handle_all work_app (map (Pair work_request) [10, 10, 10, 10, 10, 100, 100]))
      [(work_request, 0), (work_request, 1)]) ! 0) = Async"
proof -
  let ?v = "\<lparr>Mode = Sync, Endpoint = ''/api/work'', Method = ''GET'',
             AuthRequired = False, HandlerF = count_call\<rparr>"
  let ?s5 = "handle_all work_app (map (Pair work_request) [10, 10, 10, 10, 10])"
  let ?s6 = "handle_all work_app (map (Pair work_request) [10, 10, 10, 10, 10, 100])"
  let ?s7 = "handle_all work_app (map (Pair work_request) [10, 10, 10, 10, 10, 100, 100])"
  have h5: "routes ?s5 = [] @ ?v # [] \<and> (\<forall>x \<in> set []. Endpoint x \<noteq> req_URL_Path work_request)
      \<and> Endpoint ?v = req_URL_Path work_request \<and> req_Method work_request = Method ?v
      \<and> Mode ?v = Sync"
    unfolding work_after_5 by (simp add: scenario_defs)
  have h6: "routes ?s6 = [] @ ?v # [] \<and> (\<forall>x \<in> set []. Endpoint x \<noteq> req_URL_Path work_request)
      \<and> Endpoint ?v = req_URL_Path work_request \<and> req_Method work_request = Method ?v
      \<and> Mode ?v = Sync"
    unfolding work_after_6 by (simp add: scenario_defs)
  have h7: "0 < length (routes ?s7) \<and> Mode (routes ?s7 ! 0) = Async"
    unfolding work_after_7 by simp
  have c5: "\<not> (startOptimizeAt ?s5 <s totalRequest (reset_statistics ?s5)
           \<and> avarageResMs (reset_statistics ?s5) <s 100)"
    unfolding work_after_5 by (simp add: scenario_defs)
  have c6: "startOptimizeAt ?s6 <s totalRequest (reset_statistics ?s6)
           \<and> avarageResMs (reset_statistics ?s6) <s 100"
    unfolding work_after_6 by (simp add: scenario_defs)
  note t = promotion_rule_and_no_demotion
  from t [of ?s6 "[]" ?v "[]" work_request fresh_writer 100, THEN conjunct1, rule_format, OF h6]
       t [of ?s5 "[]" ?v "[]" work_request fresh_writer 100, THEN conjunct1, rule_format, OF h5]
       t [of _ _ _ _ _ _ _ 0 ?s7 "[(work_request, 0), (work_request, 1)]",
           THEN conjunct2, rule_format, OF h7]
       c5 c6
  show ?thesis by simp
qed

end
